theory Spec2Isabelle
  imports Complex_Main "HOL-Library.Char_ord" "HOL-Library.List_Lexorder"
begin

section \<open>The record store\<close>

text \<open>
  The tables of \<open>@shared/schema\<close> that \<open>SupplierQuoteStorage\<close> reads and writes. A table
  is the list of its rows, in the order in which an unordered \<open>select\<close> returns them. A
  column that may hold SQL \<open>NULL\<close> (or a JavaScript \<open>null\<close>/\<open>undefined\<close>) is an
  \<open>option\<close>; text is a \<open>string\<close> of ASCII characters. Dates are ISO-8601 text, whose
  lexicographic order is the chronological one.

  A quotation has 29 columns; the operations below read \<open>id\<close>, \<open>customerId\<close>, \<open>status\<close>,
  \<open>validUntil\<close> and \<open>notes\<close> only. The other columns are carried along unchanged in
  \<open>q_rest\<close>, as pairs of column name and value.
\<close>

record quotation =
  q_id :: string
  q_quoteNumber :: "string option"
  q_customerId :: "string option"
  q_status :: "string option"
  q_validUntil :: "string option"
  q_notes :: "string option"
  q_rest :: "(string \<times> string option) list"

record quotationItem =
  qi_id :: string
  qi_quotationId :: string
  qi_rest :: "(string \<times> string option) list"

text \<open>
  The customer table. The source reads the display name from \<open>name\<close>, \<open>customerName\<close>,
  \<open>companyName\<close> and \<open>fullName\<close>, and the address from \<open>address\<close> and \<open>billingAddress\<close>;
  a property the row does not have reads as \<open>undefined\<close>, here \<open>None\<close>.
\<close>

record customer =
  c_id :: string
  c_name :: "string option"
  c_customerName :: "string option"
  c_companyName :: "string option"
  c_fullName :: "string option"
  c_email :: "string option"
  c_phone :: "string option"
  c_address :: "string option"
  c_billingAddress :: "string option"
  c_customerType :: "string option"

record supplierRow =
  s_id :: string
  s_name :: "string option"
  s_email :: "string option"
  s_phone :: "string option"
  s_address :: "string option"

record salesOrder =
  so_id :: string
  so_quotationId :: "string option"
  so_customerId :: "string option"

record customerAcceptance =
  ca_id :: string
  ca_quotationId :: "string option"

record purchaseOrder =
  po_id :: string
  po_quotationId :: "string option"

record db =
  quotations :: "quotation list"
  quotationItems :: "quotationItem list"
  customers :: "customer list"
  suppliers :: "supplierRow list"
  salesOrders :: "salesOrder list"
  customerAcceptances :: "customerAcceptance list"
  purchaseOrders :: "purchaseOrder list"

text \<open>
  \<open>eq(column, value)\<close> of the query builder: SQL equality, which a \<open>NULL\<close> column never
  satisfies.
\<close>

definition sql_eq :: "string option \<Rightarrow> string \<Rightarrow> bool" where
  "sql_eq col v = (case col of None \<Rightarrow> False | Some x \<Rightarrow> x = v)"

section \<open>The reference guard\<close>

text \<open>
  \<open>hasReferences(id)\<close>: three queries \<open>select id from t where t.quotationId = id limit 1\<close>,
  awaited together; the answer is whether one of the three results is non-empty.
\<close>

definition hasReferences :: "db \<Rightarrow> string \<Rightarrow> bool" where
  "hasReferences d i =
     (let salesOrderRefs =
            take 1 (map so_id (filter (\<lambda>r. sql_eq (so_quotationId r) i) (salesOrders d)));
          customerAcceptanceRefs =
            take 1 (map ca_id (filter (\<lambda>r. sql_eq (ca_quotationId r) i) (customerAcceptances d)));
          purchaseOrderRefs =
            take 1 (map po_id (filter (\<lambda>r. sql_eq (po_quotationId r) i) (purchaseOrders d)))
      in length salesOrderRefs > 0 \<or> length customerAcceptanceRefs > 0
           \<or> length purchaseOrderRefs > 0)"

section \<open>JavaScript values and strings\<close>

text \<open>
  Truthiness of a value that is a string, \<open>null\<close> or \<open>undefined\<close>: only a non-empty string
  is truthy. \<open>a || b\<close> is \<open>a\<close> when \<open>a\<close> is truthy and \<open>b\<close> otherwise.
\<close>

definition truthy :: "string option \<Rightarrow> bool" where
  "truthy v = (case v of None \<Rightarrow> False | Some s \<Rightarrow> s \<noteq> [])"

definition js_or :: "string option \<Rightarrow> string option \<Rightarrow> string option" where
  "js_or a b = (if truthy a then a else b)"

text \<open>
  \<open>String.prototype.toLowerCase\<close>, \<open>trim\<close>, \<open>includes\<close> and \<open>split\<close> on ASCII text.
\<close>

definition toLowerChar :: "char \<Rightarrow> char" where
  "toLowerChar c =
     (case map_of (zip ''ABCDEFGHIJKLMNOPQRSTUVWXYZ'' ''abcdefghijklmnopqrstuvwxyz'') c of
        None \<Rightarrow> c
      | Some l \<Rightarrow> l)"

definition toLowerCase :: "string \<Rightarrow> string" where
  "toLowerCase s = map toLowerChar s"

definition isWhiteSpace :: "char \<Rightarrow> bool" where
  "isWhiteSpace c = (c \<in> set [CHR '' '', CHR 0x09, CHR 0x0A, CHR 0x0B, CHR 0x0C, CHR 0x0D])"

definition trim :: "string \<Rightarrow> string" where
  "trim s = rev (dropWhile isWhiteSpace (rev (dropWhile isWhiteSpace s)))"

fun startsWith :: "string \<Rightarrow> string \<Rightarrow> bool" where
  "startsWith s [] = True"
| "startsWith [] (p # ps) = False"
| "startsWith (c # cs) (p # ps) = (c = p \<and> startsWith cs ps)"

text \<open>\<open>js_includes s p\<close> is \<open>s.includes(p)\<close>: \<open>p\<close> occurs in \<open>s\<close> at some position.\<close>

fun js_includes :: "string \<Rightarrow> string \<Rightarrow> bool" where
  "js_includes [] p = startsWith [] p"
| "js_includes (c # cs) p = (startsWith (c # cs) p \<or> js_includes cs p)"

text \<open>\<open>js_split sep s\<close> is \<open>s.split(sep)\<close> for a separator of one character.\<close>

fun js_split :: "char \<Rightarrow> string \<Rightarrow> string list" where
  "js_split sep [] = [[]]"
| "js_split sep (c # cs) =
     (if c = sep then [] # js_split sep cs
      else (case js_split sep cs of [] \<Rightarrow> [[c]] | w # ws \<Rightarrow> (c # w) # ws))"

subsection \<open>The pattern for supplier names in notes\<close>

text \<open>
  \<open>notes.match(/suppliers?: ([^,]+(?:, [^,]+)*)/i)\<close>, as the first capture group of the
  leftmost match, or \<open>None\<close> when \<open>match\<close> returns \<open>null\<close>.

  \<open>matchLiteral p s\<close> matches the literal \<open>p\<close> at the start of \<open>s\<close>, ignoring case,
  and returns what follows it.
\<close>

fun matchLiteral :: "string \<Rightarrow> string \<Rightarrow> string option" where
  "matchLiteral [] s = Some s"
| "matchLiteral (p # ps) [] = None"
| "matchLiteral (p # ps) (c # cs) =
     (if toLowerChar c = toLowerChar p then matchLiteral ps cs else None)"

text \<open>
  \<open>matchNames s\<close> is the text that \<open>[^,]*(?:, [^,]+)*\<close> takes at the start of \<open>s\<close>. Both
  repetitions are greedy and nothing follows them in the pattern, so the engine never gives
  a character back: a run of characters other than the comma is taken whole, and a comma
  is taken only together with the space and one more character other than the comma after
  it.
\<close>

fun matchNames :: "string \<Rightarrow> string" where
  "matchNames [] = []"
| "matchNames (c # cs) =
     (if c \<noteq> CHR '','' then c # matchNames cs
      else (case cs of
              sp # d # ds \<Rightarrow>
                (if sp = CHR '' '' \<and> d \<noteq> CHR '','' then c # sp # d # matchNames ds else [])
            | _ \<Rightarrow> []))"

text \<open>
  \<open>matchColon s\<close> matches \<open>: ([^,]+(?:, [^,]+)*)\<close> at the start of \<open>s\<close>: the group needs
  a first character, which is not a comma.
\<close>

definition matchColon :: "string \<Rightarrow> string option" where
  "matchColon s =
     (case matchLiteral '': '' s of
        None \<Rightarrow> None
      | Some r \<Rightarrow>
          (case r of
             [] \<Rightarrow> None
           | c # cs \<Rightarrow> if c = CHR '','' then None else Some (matchNames r)))"

text \<open>
  \<open>matchAt s\<close> matches the whole pattern at the start of \<open>s\<close>: \<open>supplier\<close>, then the
  optional \<open>s\<close> (tried first with the letter, then without it), then the rest.
\<close>

definition matchAt :: "string \<Rightarrow> string option" where
  "matchAt s =
     (case matchLiteral ''supplier'' s of
        None \<Rightarrow> None
      | Some r \<Rightarrow>
          (case (case matchLiteral ''s'' r of None \<Rightarrow> None | Some r' \<Rightarrow> matchColon r') of
             Some g \<Rightarrow> Some g
           | None \<Rightarrow> matchColon r))"

fun supplierMatch :: "string \<Rightarrow> string option" where
  "supplierMatch [] = matchAt []"
| "supplierMatch (c # cs) =
     (case matchAt (c # cs) of Some g \<Rightarrow> Some g | None \<Rightarrow> supplierMatch cs)"

section \<open>The quotation resolver\<close>

subsection \<open>Filters\<close>

text \<open>
  The parameter of \<open>list\<close> is declared \<open>any\<close>. Its fields are modelled at the type at
  which the source uses them: text (compared with \<open>""\<close> and \<open>"all"\<close>, trimmed), or absent.
\<close>

record listParams =
  p_supplier :: "string option"
  p_status :: "string option"
  p_dateFrom :: "string option"
  p_dateTo :: "string option"
  p_search :: "string option"

datatype whereClause =
  EqCustomerId string
| EqStatus string
| GteValidUntil string
| LteValidUntil string

fun holds :: "whereClause \<Rightarrow> quotation \<Rightarrow> bool" where
  "holds (EqCustomerId v) q = sql_eq (q_customerId q) v"
| "holds (EqStatus v) q = sql_eq (q_status q) v"
| "holds (GteValidUntil v) q = (case q_validUntil q of None \<Rightarrow> False | Some t \<Rightarrow> v \<le> t)"
| "holds (LteValidUntil v) q = (case q_validUntil q of None \<Rightarrow> False | Some t \<Rightarrow> t \<le> v)"

text \<open>
  The array \<open>whereClauses\<close> of \<open>list\<close>, which both versions build in the same way;
  \<open>valueOf\<close> reads a parameter that the guard has found truthy. The two blocks guarded by
  \<open>params.search && params.search.trim() !== ""\<close> hold comments only and push nothing.
\<close>

definition valueOf :: "string option \<Rightarrow> string" where
  "valueOf v = (case v of None \<Rightarrow> [] | Some s \<Rightarrow> s)"

definition whereClauses :: "listParams \<Rightarrow> whereClause list" where
  "whereClauses params =
     (let w0 = [];
          w1 = (if truthy (p_supplier params) \<and> p_supplier params \<noteq> Some []
                     \<and> p_supplier params \<noteq> Some ''all''
                then w0 @ [EqCustomerId (valueOf (p_supplier params))] else w0);
          w2 = (if truthy (p_status params) \<and> p_status params \<noteq> Some []
                     \<and> p_status params \<noteq> Some ''all''
                then w1 @ [EqStatus (valueOf (p_status params))] else w1);
          w3 = (if truthy (p_dateFrom params)
                then w2 @ [GteValidUntil (valueOf (p_dateFrom params))] else w2);
          w4 = (if truthy (p_dateTo params)
                then w3 @ [LteValidUntil (valueOf (p_dateTo params))] else w3);
          w5 = (if truthy (p_search params) \<and> trim (valueOf (p_search params)) \<noteq> []
                then w4 else w4);
          w6 = (if truthy (p_search params) \<and> trim (valueOf (p_search params)) \<noteq> []
                then w5 else w5)
      in w6)"

text \<open>
  \<open>rows.leftJoin(table, on)\<close>: every row with each table row that satisfies \<open>on\<close>, or once
  with \<open>null\<close> when none does.
\<close>

definition leftJoin :: "'a list \<Rightarrow> 'b list \<Rightarrow> ('a \<Rightarrow> 'b \<Rightarrow> bool) \<Rightarrow> ('a \<times> 'b option) list" where
  "leftJoin rows tbl on =
     concat (map (\<lambda>r. case filter (on r) tbl of
                         [] \<Rightarrow> [(r, None)]
                       | m # ms \<Rightarrow> map (\<lambda>x. (r, Some x)) (m # ms)) rows)"

text \<open>
  \<open>whereClauses.length > 0 ? query.where(and(...whereClauses)) : query\<close>; every clause is
  about a column of the quotation.
\<close>

definition applyWhere :: "whereClause list \<Rightarrow> ('r \<Rightarrow> quotation) \<Rightarrow> 'r list \<Rightarrow> 'r list" where
  "applyWhere ws quotationOf rows =
     (if length ws > 0 then filter (\<lambda>r. list_all (\<lambda>w. holds w (quotationOf r)) ws) rows
      else rows)"

subsection \<open>Result rows\<close>

text \<open>
  The embedded customer or supplier object, and a row of the result: the quotation's own
  fields (the spread \<open>...row.quotation\<close>), \<open>supplier\<close>, \<open>supplierName\<close>, \<open>customer\<close> and
  the marker \<open>__customerEmbedded\<close>.
\<close>

record party =
  pt_id :: "string option"
  pt_name :: "string option"
  pt_email :: "string option"
  pt_phone :: "string option"
  pt_address :: "string option"
  pt_customerType :: "string option"

record quoteRow =
  r_quotation :: quotation
  r_supplier :: "party option"
  r_supplierName :: "string option"
  r_customer :: "party option"
  r_customerEmbedded :: bool

text \<open>
  The object built from a joined row of the customer table:
  \<open>name: c.name || c.customerName || c.companyName || c.fullName\<close> and
  \<open>address: c.address || c.billingAddress\<close>.
\<close>

definition partyOf :: "customer \<Rightarrow> party" where
  "partyOf c =
     \<lparr> pt_id = Some (c_id c),
       pt_name = js_or (js_or (js_or (c_name c) (c_customerName c)) (c_companyName c)) (c_fullName c),
       pt_email = c_email c,
       pt_phone = c_phone c,
       pt_address = js_or (c_address c) (c_billingAddress c),
       pt_customerType = c_customerType c \<rparr>"

subsection \<open>Version A: the supplier from the notes\<close>

text \<open>
  The predicate of \<open>allSuppliers.find\<close>:
  \<open>s.name?.toLowerCase().includes(supplierName.toLowerCase()) ||
   supplierName.toLowerCase().includes(s.name?.toLowerCase() || '')\<close>.
  When \<open>s.name\<close> is \<open>null\<close> the first disjunct is \<open>undefined\<close> and the second asks for the
  empty string.
\<close>

definition supplierMatches :: "string \<Rightarrow> supplierRow \<Rightarrow> bool" where
  "supplierMatches supplierName s =
     ((case s_name s of
         None \<Rightarrow> False
       | Some n \<Rightarrow> js_includes (toLowerCase n) (toLowerCase supplierName))
      \<or> js_includes (toLowerCase supplierName)
           (valueOf (js_or (map_option toLowerCase (s_name s)) (Some []))))"

text \<open>
  The supplier and the supplier name of one row. \<open>supplierNames[0]\<close> is read with \<open>hd\<close>:
  \<open>split\<close> never returns an empty array (lemma \<open>js_split_nonempty\<close> below).
\<close>

definition resolveSupplier :: "supplierRow list \<Rightarrow> string option \<Rightarrow> party option \<times> string option" where
  "resolveSupplier allSuppliers notes =
     (if truthy notes then
        (case supplierMatch (valueOf notes) of
           None \<Rightarrow> (None, Some ''Unknown Supplier'')
         | Some g \<Rightarrow>
             (let supplierNames = map trim (js_split (CHR '','') g);
                  supplierName = hd supplierNames
              in case find (supplierMatches supplierName) allSuppliers of
                   Some matchingSupplier \<Rightarrow>
                     (Some \<lparr> pt_id = Some (s_id matchingSupplier),
                              pt_name = s_name matchingSupplier,
                              pt_email = s_email matchingSupplier,
                              pt_phone = s_phone matchingSupplier,
                              pt_address = s_address matchingSupplier,
                              pt_customerType = Some ''Supplier'' \<rparr>,
                      s_name matchingSupplier)
                 | None \<Rightarrow>
                     (Some \<lparr> pt_id = None,
                              pt_name = Some supplierName,
                              pt_email = None,
                              pt_phone = None,
                              pt_address = None,
                              pt_customerType = Some ''Supplier'' \<rparr>,
                      Some supplierName)))
      else (None, Some ''Unknown Supplier''))"

definition processRow_A :: "supplierRow list \<Rightarrow> quotation \<times> customer option \<Rightarrow> quoteRow" where
  "processRow_A allSuppliers row =
     (let customer = map_option partyOf (snd row);
          resolved = resolveSupplier allSuppliers (q_notes (fst row))
      in \<lparr> r_quotation = fst row,
            r_supplier = fst resolved,
            r_supplierName = snd resolved,
            r_customer = customer,
            r_customerEmbedded = True \<rparr>)"

definition list_A :: "db \<Rightarrow> listParams \<Rightarrow> quoteRow list" where
  "list_A d params =
     (let ws = whereClauses params;
          query = leftJoin (quotations d) (customers d)
                    (\<lambda>q c. sql_eq (q_customerId q) (c_id c));
          results = applyWhere ws fst query;
          allSuppliers = suppliers d
      in map (processRow_A allSuppliers) results)"

subsection \<open>Version B: the supplier from the join\<close>

text \<open>
  The customer table is joined twice: as \<open>suppliers\<close> on the quotation's own customer id,
  and as \<open>customers\<close> on the customer id of a sales order of the quotation.
\<close>

record joinedRow =
  j_quotation :: quotation
  j_supplier :: "customer option"
  j_customer :: "customer option"

definition processRow_B :: "joinedRow \<Rightarrow> quoteRow" where
  "processRow_B row =
     (let supplier = map_option partyOf (j_supplier row);
          customer = map_option partyOf (j_customer row)
      in \<lparr> r_quotation = j_quotation row,
            r_supplier = supplier,
            r_supplierName =
              js_or (case supplier of None \<Rightarrow> None | Some s \<Rightarrow> pt_name s)
                    (Some ''Unknown Supplier''),
            r_customer = customer,
            r_customerEmbedded = True \<rparr>)"

definition joinRows_B :: "db \<Rightarrow> joinedRow list" where
  "joinRows_B d =
     (let j1 = leftJoin (quotations d) (customers d)
                 (\<lambda>q s. sql_eq (q_customerId q) (c_id s));
          j2 = leftJoin j1 (salesOrders d)
                 (\<lambda>qs so. sql_eq (so_quotationId so) (q_id (fst qs)));
          j3 = leftJoin j2 (customers d)
                 (\<lambda>qso c. case snd qso of
                             None \<Rightarrow> False
                           | Some so \<Rightarrow> sql_eq (so_customerId so) (c_id c))
      in map (\<lambda>r. \<lparr> j_quotation = fst (fst (fst r)),
                     j_supplier = snd (fst (fst r)),
                     j_customer = snd r \<rparr>) j3)"

definition list_B :: "db \<Rightarrow> listParams \<Rightarrow> quoteRow list" where
  "list_B d params =
     (let ws = whereClauses params;
          results = applyWhere ws j_quotation (joinRows_B d)
      in map processRow_B results)"

section \<open>Deleting a quotation\<close>

text \<open>
  The statements that \<open>delete\<close> sends to the store, and what each does to the tables when
  the store executes it.
\<close>

datatype statement =
  DeleteQuotationItems string
| DeleteQuotation string
| Commit

datatype dbError = Rejected statement

fun run :: "statement \<Rightarrow> db \<Rightarrow> db" where
  "run (DeleteQuotationItems i) d =
     d\<lparr>quotationItems := filter (\<lambda>x. qi_quotationId x \<noteq> i) (quotationItems d)\<rparr>"
| "run (DeleteQuotation i) d =
     d\<lparr>quotations := filter (\<lambda>q. q_id q \<noteq> i) (quotations d)\<rparr>"
| "run Commit d = d"

text \<open>
  The store is an external collaborator and may fail a statement (a constraint, a lost
  connection). Which statement it fails, and in which state, is the parameter \<open>rejects\<close>
  of the model; an awaited statement that fails throws.
\<close>

definition execute :: "(statement \<Rightarrow> db \<Rightarrow> bool) \<Rightarrow> statement \<Rightarrow> db \<Rightarrow> dbError + db" where
  "execute rejects st d = (if rejects st d then Inl (Rejected st) else Inr (run st d))"

text \<open>
  Modelled from the spec: \<open>db.transaction\<close> of the query builder, which is not part of the
  sources. The spec asks for ``transactional (all-or-nothing) scoped execution: both deletes
  must commit together or neither does''. The callback works on the transaction's own view
  of the tables; when it throws, or the commit fails, the tables stay as they were and the
  error is thrown on; otherwise the view becomes the tables.
\<close>

definition transaction ::
  "(statement \<Rightarrow> db \<Rightarrow> bool) \<Rightarrow> (db \<Rightarrow> dbError + db) \<Rightarrow> db \<Rightarrow> (dbError + unit) \<times> db" where
  "transaction rejects callback d =
     (case callback d of
        Inl e \<Rightarrow> (Inl e, d)
      | Inr tx \<Rightarrow>
          (case execute rejects Commit tx of
             Inl e \<Rightarrow> (Inl e, d)
           | Inr d' \<Rightarrow> (Inr (), d')))"

record ack =
  message :: string

text \<open>
  \<open>delete(id)\<close>: inside one transaction, the line items of the quotation first, then the
  quotation. The result is the thrown error or the acknowledgment, with the tables after
  the call.
\<close>

definition delete :: "(statement \<Rightarrow> db \<Rightarrow> bool) \<Rightarrow> db \<Rightarrow> string \<Rightarrow> (dbError + ack) \<times> db" where
  "delete rejects d i =
     (case transaction rejects
             (\<lambda>tx. case execute rejects (DeleteQuotationItems i) tx of
                      Inl e \<Rightarrow> Inl e
                    | Inr tx' \<Rightarrow> execute rejects (DeleteQuotation i) tx') d of
        (Inl e, d') \<Rightarrow> (Inl e, d')
      | (Inr u, d') \<Rightarrow> (Inr \<lparr> message = ''Supplier quote deleted successfully'' \<rparr>, d'))"

text \<open>A store that fails no statement.\<close>

definition reliable :: "statement \<Rightarrow> db \<Rightarrow> bool" where
  "reliable st d = False"


section \<open>The customer list endpoint\<close>

subsection \<open>parseInt\<close>

text \<open>
  \<open>parseInt(s)\<close> with no radix: leading white space is skipped, then an optional sign, then
  an optional \<open>0x\<close> or \<open>0X\<close> that selects radix 16; the value is that of the longest run of
  digits that follows, and \<open>NaN\<close> (here \<open>None\<close>) when there is no digit. Numbers are
  integers: the model is exact as long as they stay within the range in which JavaScript
  numbers are exact integers.
\<close>

definition digitValue :: "nat \<Rightarrow> char \<Rightarrow> nat option" where
  "digitValue radix c =
     (case map_of (zip ''0123456789abcdef'' [0..<16]) (toLowerChar c) of
        None \<Rightarrow> None
      | Some v \<Rightarrow> if v < radix then Some v else None)"

definition parseDigits :: "nat \<Rightarrow> string \<Rightarrow> int option" where
  "parseDigits radix s =
     (let z = takeWhile (\<lambda>c. digitValue radix c \<noteq> None) s
      in if z = [] then None
         else Some (foldl (\<lambda>acc c. acc * int radix + int (the (digitValue radix c))) 0 z))"

definition parseUnsigned :: "string \<Rightarrow> int option" where
  "parseUnsigned s =
     (if startsWith s ''0x'' \<or> startsWith s ''0X'' then parseDigits 16 (drop 2 s)
      else parseDigits 10 s)"

definition parseInt :: "string \<Rightarrow> int option" where
  "parseInt input =
     (let s = dropWhile isWhiteSpace input
      in case s of
           [] \<Rightarrow> None
         | c # cs \<Rightarrow>
             if c = CHR ''-'' then map_option uminus (parseUnsigned cs)
             else if c = CHR ''+'' then parseUnsigned cs
             else parseUnsigned s)"

text \<open>
  \<open>parseInt(req.query.x as string) || dflt\<close>: an absent parameter is \<open>undefined\<close>, which
  \<open>parseInt\<close> turns into \<open>NaN\<close>; \<open>NaN\<close> and \<open>0\<close> are falsy.
\<close>

definition parseOr :: "string option \<Rightarrow> int \<Rightarrow> int" where
  "parseOr v dflt =
     (case (case v of None \<Rightarrow> None | Some s \<Rightarrow> parseInt s) of
        None \<Rightarrow> dflt
      | Some n \<Rightarrow> if n = 0 then dflt else n)"

subsection \<open>The handler of GET /api/customers\<close>












section \<open>Example data\<close>

text \<open>A small store and two requests, on which the theorems below are run.\<close>

definition supplierNotes :: string where
  "supplierNotes = ''Suppliers: Acme Corp, Beta Inc''"

definition quote1 :: quotation where
  "quote1 = \<lparr> q_id = ''q1'', q_quoteNumber = Some ''SQ-001'', q_customerId = Some ''c1'',
               q_status = Some ''Draft'', q_validUntil = Some ''2025-01-31'',
               q_notes = Some supplierNotes, q_rest = [] \<rparr>"

definition customer1 :: customer where
  "customer1 = \<lparr> c_id = ''c1'', c_name = Some ''Globex'', c_customerName = None,
                  c_companyName = None, c_fullName = None, c_email = None, c_phone = None,
                  c_address = None, c_billingAddress = None, c_customerType = Some ''Retail'' \<rparr>"

definition blankCustomer :: customer where
  "blankCustomer = customer1 \<lparr> c_name := Some [] \<rparr>"

definition namedSupplier :: "string \<Rightarrow> string option \<Rightarrow> supplierRow" where
  "namedSupplier i n =
     \<lparr> s_id = i, s_name = n, s_email = None, s_phone = None, s_address = None \<rparr>"

definition storeWith :: "quotation list \<Rightarrow> customer list \<Rightarrow> supplierRow list \<Rightarrow> db" where
  "storeWith qs cs ss =
     \<lparr> quotations = qs,
       quotationItems = [\<lparr> qi_id = ''i1'', qi_quotationId = ''q1'', qi_rest = [] \<rparr>,
                         \<lparr> qi_id = ''i2'', qi_quotationId = ''q1'', qi_rest = [] \<rparr>],
       customers = cs,
       suppliers = ss,
       salesOrders = [\<lparr> so_id = ''so1'', so_quotationId = Some ''q1'', so_customerId = Some ''c1'' \<rparr>],
       customerAcceptances = [],
       purchaseOrders = [\<lparr> po_id = ''po1'', po_quotationId = None \<rparr>] \<rparr>"

definition sampleParams :: listParams where
  "sampleParams = \<lparr> p_supplier = None, p_status = Some ''all'', p_dateFrom = None,
                 p_dateTo = None, p_search = Some ''acme'' \<rparr>"

text \<open>A store that refuses to delete a quotation that is still referenced.\<close>

definition guardedStore :: "statement \<Rightarrow> db \<Rightarrow> bool" where
  "guardedStore st d = (case st of DeleteQuotation i \<Rightarrow> hasReferences d i | _ \<Rightarrow> False)"



section \<open>The string functions on examples\<close>

lemma supplierMatch_examples:
  "supplierMatch ''Suppliers: Acme Corp, Beta Inc'' = Some ''Acme Corp, Beta Inc''"
  "supplierMatch ''see supplier: X,Y'' = Some ''X''"
  "supplierMatch ''SUPPLIERS:  '' = Some '' ''"
  "supplierMatch ''suppliers: , a'' = None"
  "supplierMatch ''supplierss: a; Supplier: b, c,d'' = Some ''b, c''"
  "supplierMatch ''supplier:x'' = None"
  by code_simp+

lemma string_examples:
  "toLowerCase ''ACME Corp LTD'' = ''acme corp ltd''"
  "trim ''  Beta Inc '' = ''Beta Inc''"
  "js_split (CHR '','') ''Acme Corp, Beta Inc'' = [''Acme Corp'', '' Beta Inc'']"
  "js_split (CHR '','') [] = [[]]"
  "js_includes ''acme corp ltd'' ''acme corp''"
  "js_includes ''acme corp'' []"
  "\<not> js_includes ''acme corp'' ''zenith tools''"
  by code_simp+

lemma parseInt_examples:
  "parseInt ''42'' = Some 42"
  "parseInt ''  -17px'' = Some (- 17)"
  "parseInt ''0x1F'' = Some 31"
  "parseInt ''12.5'' = Some 12"
  "parseInt ''abc'' = None"
  "parseInt [] = None"
  "parseInt ''0x'' = None"
  "parseOr (Some ''0'') 50 = 50"
  "parseOr None 50 = 50"
  by code_simp+

section \<open>Properties of the reference guard\<close>

lemma limit1_nonempty:
  "(length (take 1 (map f (filter P xs))) > 0) = (\<exists>x \<in> set xs. P x)"
proof -
  have "(length (take 1 (map f (filter P xs))) > 0) = (filter P xs \<noteq> [])"
    by (cases "filter P xs") simp_all
  also have "\<dots> = (\<exists>x \<in> set xs. P x)"
    by (simp add: filter_empty_conv)
  finally show ?thesis .
qed

lemma sql_eq_Some: "sql_eq col v = (col = Some v)"
  by (cases col) (auto simp: sql_eq_def)

text \<open>
  C1. \<open>hasReferences(id)\<close> is true exactly when the sales orders, the customer acceptances
  or the purchase orders hold a row whose quotation reference equals \<open>id\<close>; when none of the
  three does, it is false.
\<close>

theorem hasReferences_iff:
  "hasReferences d i =
     ((\<exists>r \<in> set (salesOrders d). so_quotationId r = Some i)
      \<or> (\<exists>r \<in> set (customerAcceptances d). ca_quotationId r = Some i)
      \<or> (\<exists>r \<in> set (purchaseOrders d). po_quotationId r = Some i))"
  unfolding hasReferences_def Let_def limit1_nonempty sql_eq_Some ..

theorem hasReferences_witness:
  "hasReferences (storeWith [quote1] [] []) ''q1'' \<and> \<not> hasReferences (storeWith [quote1] [] []) ''q2''"
  using hasReferences_iff [of "storeWith [quote1] [] []" "''q1''"]
        hasReferences_iff [of "storeWith [quote1] [] []" "''q2''"]
  by (simp add: storeWith_def)

section \<open>Properties of delete\<close>

text \<open>
  What \<open>delete\<close> returns, by the first statement that the store rejects.
\<close>

lemma delete_cases:
  "delete rejects d i =
     (if rejects (DeleteQuotationItems i) d then (Inl (Rejected (DeleteQuotationItems i)), d)
      else if rejects (DeleteQuotation i) (run (DeleteQuotationItems i) d)
        then (Inl (Rejected (DeleteQuotation i)), d)
      else if rejects Commit (run (DeleteQuotation i) (run (DeleteQuotationItems i) d))
        then (Inl (Rejected Commit), d)
      else (Inr \<lparr> message = ''Supplier quote deleted successfully'' \<rparr>,
            run (DeleteQuotation i) (run (DeleteQuotationItems i) d)))"
  by (simp add: delete_def transaction_def execute_def)

lemma run_both:
  "run (DeleteQuotation i) (run (DeleteQuotationItems i) d) =
     d\<lparr> quotationItems := filter (\<lambda>x. qi_quotationId x \<noteq> i) (quotationItems d),
        quotations := filter (\<lambda>q. q_id q \<noteq> i) (quotations d) \<rparr>"
  by simp

text \<open>
  C2. \<open>delete(id)\<close> is all or nothing. Whatever statements the store rejects, the call
  either returns the acknowledgment and leaves the tables without the line items of \<open>id\<close>
  and without the quotation \<open>id\<close>, everything else as it was, or throws and leaves the
  tables exactly as they were. On a store that rejects nothing it returns the
  acknowledgment.
\<close>

theorem delete_all_or_nothing:
  "(delete rejects d i =
      (Inr \<lparr> message = ''Supplier quote deleted successfully'' \<rparr>,
       d\<lparr> quotationItems := filter (\<lambda>x. qi_quotationId x \<noteq> i) (quotationItems d),
          quotations := filter (\<lambda>q. q_id q \<noteq> i) (quotations d) \<rparr>)
    \<or> (\<exists>e. delete rejects d i = (Inl e, d)))
   \<and> fst (delete reliable d i) = Inr \<lparr> message = ''Supplier quote deleted successfully'' \<rparr>"
proof
  show "delete rejects d i =
      (Inr \<lparr> message = ''Supplier quote deleted successfully'' \<rparr>,
       d\<lparr> quotationItems := filter (\<lambda>x. qi_quotationId x \<noteq> i) (quotationItems d),
          quotations := filter (\<lambda>q. q_id q \<noteq> i) (quotations d) \<rparr>)
    \<or> (\<exists>e. delete rejects d i = (Inl e, d))"
    unfolding delete_cases run_both by simp
next
  show "fst (delete reliable d i) = Inr \<lparr> message = ''Supplier quote deleted successfully'' \<rparr>"
    unfolding delete_cases by (simp add: reliable_def)
qed

text \<open>
  On the example store the quotation \<open>q1\<close> has two line items and a sales order. A store
  that refuses the second statement leaves both line items in place; a store that refuses
  nothing removes the line items and the quotation.
\<close>

theorem delete_rollback_witness:
  "delete guardedStore (storeWith [quote1] [] []) ''q1''
     = (Inl (Rejected (DeleteQuotation ''q1'')), storeWith [quote1] [] [])
   \<and> map qi_id (quotationItems (snd (delete guardedStore (storeWith [quote1] [] []) ''q1''))) = [''i1'', ''i2'']
   \<and> snd (delete reliable (storeWith [quote1] [] []) ''q1'')
     = (storeWith [quote1] [] []) \<lparr> quotationItems := [], quotations := [] \<rparr>"
  using delete_all_or_nothing [of guardedStore "storeWith [quote1] [] []" "''q1''"]
        delete_all_or_nothing [of reliable "storeWith [quote1] [] []" "''q1''"]
  by (simp add: delete_cases guardedStore_def hasReferences_def sql_eq_def reliable_def
        storeWith_def quote1_def)




section \<open>Properties of the quotation list\<close>

lemma js_split_nonempty: "js_split sep s \<noteq> []"
  by (induction s) (auto split: list.splits)

lemma leftJoin_set:
  "set (leftJoin rows tbl on) =
     {(r, Some m) | r m. r \<in> set rows \<and> m \<in> set tbl \<and> on r m}
     \<union> {(r, None) | r. r \<in> set rows \<and> \<not> (\<exists>m \<in> set tbl. on r m)}"
proof -
  have one: "set (case filter (on r) tbl of [] \<Rightarrow> [(r, None)]
                  | m # ms \<Rightarrow> map (\<lambda>x. (r, Some x)) (m # ms)) =
             {(r, Some m) | m. m \<in> set tbl \<and> on r m}
             \<union> {(r, None) | z::unit. \<not> (\<exists>m \<in> set tbl. on r m)}" for r
  proof (cases "filter (on r) tbl")
    case Nil
    then have "\<not> (\<exists>m \<in> set tbl. on r m)"
      by (simp add: filter_empty_conv)
    with Nil show ?thesis by auto
  next
    case (Cons m ms)
    then have "m \<in> set (filter (on r) tbl)" by simp
    then have ex: "\<exists>m \<in> set tbl. on r m" by auto
    have "set (map (\<lambda>x. (r, Some x)) (filter (on r) tbl)) =
            {(r, Some m) | m. m \<in> set tbl \<and> on r m}"
      by auto
    with Cons ex show ?thesis by auto
  qed
  show ?thesis
    unfolding leftJoin_def set_concat set_map image_image one by blast
qed

lemma applyWhere_subset: "set (applyWhere ws f rows) \<subseteq> set rows"
  by (auto simp: applyWhere_def)

lemma list_A_row:
  assumes "row \<in> set (list_A d params)"
  shows "r_supplier row = fst (resolveSupplier (suppliers d) (q_notes (r_quotation row)))
         \<and> r_supplierName row = snd (resolveSupplier (suppliers d) (q_notes (r_quotation row)))"
proof -
  from assms obtain jr where "row = processRow_A (suppliers d) jr"
    by (auto simp: list_A_def Let_def)
  then show ?thesis
    by (simp add: processRow_A_def Let_def)
qed

lemma notes_match: "supplierMatch ''Suppliers: Acme Corp, Beta Inc'' = Some ''Acme Corp, Beta Inc''"
  by code_simp

lemma notes_first_name: "hd (map trim (js_split (CHR '','') ''Acme Corp, Beta Inc'')) = ''Acme Corp''"
  by code_simp

lemma resolve_notes:
  "resolveSupplier ss (Some ''Suppliers: Acme Corp, Beta Inc'') =
     (case find (supplierMatches ''Acme Corp'') ss of
        Some m \<Rightarrow>
          (Some \<lparr> pt_id = Some (s_id m), pt_name = s_name m, pt_email = s_email m,
                   pt_phone = s_phone m, pt_address = s_address m,
                   pt_customerType = Some ''Supplier'' \<rparr>,
           s_name m)
      | None \<Rightarrow>
          (Some \<lparr> pt_id = None, pt_name = Some ''Acme Corp'', pt_email = None,
                   pt_phone = None, pt_address = None,
                   pt_customerType = Some ''Supplier'' \<rparr>,
           Some ''Acme Corp''))"
proof -
  have t: "truthy (Some ''Suppliers: Acme Corp, Beta Inc'')"
    by (simp add: truthy_def)
  have v: "valueOf (Some ''Suppliers: Acme Corp, Beta Inc'') = ''Suppliers: Acme Corp, Beta Inc''"
    by (simp add: valueOf_def)
  show ?thesis
    unfolding resolveSupplier_def v notes_match
    by (simp only: t if_True option.case Let_def notes_first_name)
qed

text \<open>
  C3. Version A, notes \<open>Suppliers: Acme Corp, Beta Inc\<close>: when no row of the supplier
  table matches the extracted name \<open>Acme Corp\<close>, the row of the result has
  \<open>supplierName\<close> \<open>Acme Corp\<close> and a supplier object whose \<open>id\<close> is \<open>null\<close>.
\<close>

theorem list_A_unmatched_supplier:
  assumes "row \<in> set (list_A d params)"
    and "q_notes (r_quotation row) = Some ''Suppliers: Acme Corp, Beta Inc''"
    and "\<not> (\<exists>s \<in> set (suppliers d). supplierMatches ''Acme Corp'' s)"
  shows "r_supplierName row = Some ''Acme Corp''
         \<and> r_supplier row =
             Some \<lparr> pt_id = None, pt_name = Some ''Acme Corp'', pt_email = None,
                     pt_phone = None, pt_address = None,
                     pt_customerType = Some ''Supplier'' \<rparr>"
proof -
  from assms(3) have "find (supplierMatches ''Acme Corp'') (suppliers d) = None"
    by (simp add: find_None_iff)
  with list_A_row [OF assms(1)] assms(2) show ?thesis
    by (simp add: resolve_notes)
qed

lemma sample_list_A:
  "list_A (storeWith [quote1] [customer1] ss) sampleParams =
     [\<lparr> r_quotation = quote1,
         r_supplier = fst (resolveSupplier ss (Some ''Suppliers: Acme Corp, Beta Inc'')),
         r_supplierName = snd (resolveSupplier ss (Some ''Suppliers: Acme Corp, Beta Inc'')),
         r_customer = Some (partyOf customer1),
         r_customerEmbedded = True \<rparr>]"
  by (simp add: list_A_def whereClauses_def truthy_def applyWhere_def leftJoin_def
        storeWith_def sql_eq_def quote1_def customer1_def processRow_A_def supplierNotes_def
        sampleParams_def Let_def)

text \<open>
  With the table holding only \<open>Zenith Tools\<close>, the one row of the result is named
  \<open>Acme Corp\<close> and its supplier has no id.
\<close>

theorem list_A_unmatched_witness:
  "list_A (storeWith [quote1] [customer1] [namedSupplier ''s7'' (Some ''Zenith Tools'')]) sampleParams \<noteq> []
   \<and> map r_supplierName
         (list_A (storeWith [quote1] [customer1] [namedSupplier ''s7'' (Some ''Zenith Tools'')]) sampleParams)
       = [Some ''Acme Corp'']
   \<and> map (map_option pt_id \<circ> r_supplier)
         (list_A (storeWith [quote1] [customer1] [namedSupplier ''s7'' (Some ''Zenith Tools'')]) sampleParams)
       = [Some None]"
proof -
  let ?ss = "[namedSupplier ''s7'' (Some ''Zenith Tools'')]"
  let ?row = "\<lparr> r_quotation = quote1,
         r_supplier = fst (resolveSupplier ?ss (Some ''Suppliers: Acme Corp, Beta Inc'')),
         r_supplierName = snd (resolveSupplier ?ss (Some ''Suppliers: Acme Corp, Beta Inc'')),
         r_customer = Some (partyOf customer1),
         r_customerEmbedded = True \<rparr>"
  have rows: "list_A (storeWith [quote1] [customer1] ?ss) sampleParams = [?row]"
    by (rule sample_list_A)
  have mem: "?row \<in> set (list_A (storeWith [quote1] [customer1] ?ss) sampleParams)"
    unfolding rows by simp
  have nts: "q_notes (r_quotation ?row) = Some ''Suppliers: Acme Corp, Beta Inc''"
    by (simp add: quote1_def supplierNotes_def)
  have nomatch: "\<not> supplierMatches ''Acme Corp'' (namedSupplier ''s7'' (Some ''Zenith Tools''))"
    by code_simp
  have none: "\<not> (\<exists>s \<in> set (suppliers (storeWith [quote1] [customer1] ?ss)). supplierMatches ''Acme Corp'' s)"
    using nomatch by (simp add: storeWith_def)
  from list_A_unmatched_supplier [OF mem nts none] show ?thesis
    unfolding rows by simp
qed

lemma find_first:
  "\<not> (\<exists>x \<in> set before. P x) \<Longrightarrow> P r \<Longrightarrow> find P (before @ r # rest) = Some r"
  by (induction before) auto

lemma acme_ltd_matches:
  "s_name r = Some ''ACME CORP LTD'' \<Longrightarrow> supplierMatches ''Acme Corp'' r"
proof -
  assume n: "s_name r = Some ''ACME CORP LTD''"
  have "js_includes (toLowerCase ''ACME CORP LTD'') (toLowerCase ''Acme Corp'')"
    by code_simp
  with n show ?thesis
    by (simp add: supplierMatches_def)
qed

text \<open>
  C4, as amended. Version A, same notes: a row of the supplier table named
  \<open>ACME CORP LTD\<close> matches the extracted name \<open>Acme Corp\<close>; when no row before it in
  the table matches as well, the row of the result has that row's id in \<open>supplier.id\<close> and
  \<open>supplierName\<close> \<open>ACME CORP LTD\<close>.
\<close>

theorem list_A_first_matching_supplier:
  assumes "row \<in> set (list_A d params)"
    and "q_notes (r_quotation row) = Some ''Suppliers: Acme Corp, Beta Inc''"
    and "suppliers d = before @ r # rest"
    and "s_name r = Some ''ACME CORP LTD''"
    and "\<not> (\<exists>s \<in> set before. supplierMatches ''Acme Corp'' s)"
  shows "supplierMatches ''Acme Corp'' r
         \<and> r_supplierName row = Some ''ACME CORP LTD''
         \<and> (\<exists>sup. r_supplier row = Some sup \<and> pt_id sup = Some (s_id r)
                \<and> pt_name sup = Some ''ACME CORP LTD'')"
proof -
  have m: "supplierMatches ''Acme Corp'' r"
    using assms(4) by (rule acme_ltd_matches)
  have "find (supplierMatches ''Acme Corp'') (suppliers d) = Some r"
    unfolding assms(3) using assms(5) m by (rule find_first)
  with list_A_row [OF assms(1)] assms(2) assms(4) m show ?thesis
    by (simp add: resolve_notes)
qed

text \<open>
  With \<open>Zenith Tools\<close> before \<open>ACME CORP LTD\<close> in the table, the result names
  \<open>ACME CORP LTD\<close> with its id \<open>s1\<close>.
\<close>

theorem list_A_first_matching_witness:
  "map r_supplierName
     (list_A (storeWith [quote1] [customer1]
        [namedSupplier ''s7'' (Some ''Zenith Tools''), namedSupplier ''s1'' (Some ''ACME CORP LTD'')])
        sampleParams)
     = [Some ''ACME CORP LTD'']
   \<and> map (map_option pt_id \<circ> r_supplier)
     (list_A (storeWith [quote1] [customer1]
        [namedSupplier ''s7'' (Some ''Zenith Tools''), namedSupplier ''s1'' (Some ''ACME CORP LTD'')])
        sampleParams)
     = [Some (Some ''s1'')]"
proof -
  let ?r = "namedSupplier ''s1'' (Some ''ACME CORP LTD'')"
  let ?ss = "[namedSupplier ''s7'' (Some ''Zenith Tools''), ?r]"
  let ?row = "\<lparr> r_quotation = quote1,
         r_supplier = fst (resolveSupplier ?ss (Some ''Suppliers: Acme Corp, Beta Inc'')),
         r_supplierName = snd (resolveSupplier ?ss (Some ''Suppliers: Acme Corp, Beta Inc'')),
         r_customer = Some (partyOf customer1),
         r_customerEmbedded = True \<rparr>"
  have rows: "list_A (storeWith [quote1] [customer1] ?ss) sampleParams = [?row]"
    by (rule sample_list_A)
  have mem: "?row \<in> set (list_A (storeWith [quote1] [customer1] ?ss) sampleParams)"
    unfolding rows by simp
  have nts: "q_notes (r_quotation ?row) = Some ''Suppliers: Acme Corp, Beta Inc''"
    by (simp add: quote1_def supplierNotes_def)
  have tbl: "suppliers (storeWith [quote1] [customer1] ?ss)
               = [namedSupplier ''s7'' (Some ''Zenith Tools'')] @ ?r # []"
    by (simp add: storeWith_def)
  have nm: "s_name ?r = Some ''ACME CORP LTD''"
    by (simp add: namedSupplier_def)
  have nomatch: "\<not> supplierMatches ''Acme Corp'' (namedSupplier ''s7'' (Some ''Zenith Tools''))"
    by code_simp
  then have none: "\<not> (\<exists>s \<in> set [namedSupplier ''s7'' (Some ''Zenith Tools'')].
                          supplierMatches ''Acme Corp'' s)"
    by simp
  from list_A_first_matching_supplier [OF mem nts tbl nm none] show ?thesis
    unfolding rows by (auto simp: namedSupplier_def)
qed

text \<open>
  C4 as stated fails when an earlier row matches too: \<open>find\<close> returns the first match.
  With \<open>Acme\<close> (id \<open>s0\<close>) before \<open>ACME CORP LTD\<close> (id \<open>s1\<close>), the result has
  \<open>supplier.id\<close> \<open>s0\<close> and \<open>supplierName\<close> \<open>Acme\<close>.
\<close>

theorem list_A_earlier_match_counterexample:
  "map s_name (suppliers (storeWith [quote1] [customer1]
        [namedSupplier ''s0'' (Some ''Acme''), namedSupplier ''s1'' (Some ''ACME CORP LTD'')]))
     = [Some ''Acme'', Some ''ACME CORP LTD'']
   \<and> map (q_notes \<circ> r_quotation)
     (list_A (storeWith [quote1] [customer1]
        [namedSupplier ''s0'' (Some ''Acme''), namedSupplier ''s1'' (Some ''ACME CORP LTD'')])
        sampleParams)
     = [Some ''Suppliers: Acme Corp, Beta Inc'']
   \<and> map r_supplierName
     (list_A (storeWith [quote1] [customer1]
        [namedSupplier ''s0'' (Some ''Acme''), namedSupplier ''s1'' (Some ''ACME CORP LTD'')])
        sampleParams)
     = [Some ''Acme'']
   \<and> map (map_option pt_id \<circ> r_supplier)
     (list_A (storeWith [quote1] [customer1]
        [namedSupplier ''s0'' (Some ''Acme''), namedSupplier ''s1'' (Some ''ACME CORP LTD'')])
        sampleParams)
     = [Some (Some ''s0'')]"
proof -
  have m: "supplierMatches ''Acme Corp'' (namedSupplier ''s0'' (Some ''Acme''))"
    by code_simp
  show ?thesis
    unfolding sample_list_A resolve_notes
    by (simp add: m [unfolded namedSupplier_def] storeWith_def namedSupplier_def quote1_def
          supplierNotes_def)
qed


lemma leftJoin_fst: "x \<in> set (leftJoin rows tbl on) \<Longrightarrow> fst x \<in> set rows"
  by (auto simp: leftJoin_set)

lemma list_B_row:
  assumes "row \<in> set (list_B d params)"
  shows "\<exists>jr \<in> set (joinRows_B d). row = processRow_B jr"
  using assms applyWhere_subset [of "whereClauses params" j_quotation "joinRows_B d"]
  by (auto simp: list_B_def Let_def)

lemma joinRows_B_supplier:
  assumes "jr \<in> set (joinRows_B d)"
  shows "(j_quotation jr, j_supplier jr) \<in>
           set (leftJoin (quotations d) (customers d) (\<lambda>q s. sql_eq (q_customerId q) (c_id s)))"
proof -
  from assms obtain r where
    r: "r \<in> set (leftJoin
              (leftJoin
                 (leftJoin (quotations d) (customers d) (\<lambda>q s. sql_eq (q_customerId q) (c_id s)))
                 (salesOrders d) (\<lambda>qs so. sql_eq (so_quotationId so) (q_id (fst qs))))
              (customers d)
              (\<lambda>qso c. case snd qso of None \<Rightarrow> False
                        | Some so \<Rightarrow> sql_eq (so_customerId so) (c_id c)))"
    and jr: "jr = \<lparr> j_quotation = fst (fst (fst r)), j_supplier = snd (fst (fst r)),
                    j_customer = snd r \<rparr>"
    by (auto simp: joinRows_B_def Let_def)
  from r have "fst (fst r) \<in>
      set (leftJoin (quotations d) (customers d) (\<lambda>q s. sql_eq (q_customerId q) (c_id s)))"
    by (blast dest: leftJoin_fst)
  with jr show ?thesis by simp
qed

lemma processRow_B_name:
  "r_supplierName (processRow_B jr) =
     (case j_supplier jr of
        None \<Rightarrow> Some ''Unknown Supplier''
      | Some s \<Rightarrow>
          if truthy (c_name s) then c_name s
          else if truthy (c_customerName s) then c_customerName s
          else if truthy (c_companyName s) then c_companyName s
          else if truthy (c_fullName s) then c_fullName s
          else Some ''Unknown Supplier'')"
  by (cases "j_supplier jr") (simp_all add: processRow_B_def partyOf_def js_or_def truthy_def)

text \<open>
  C6, as amended. Version B: every row of the result comes from a joined row. When the
  join on the quotation's own customer id finds no row, \<open>supplierName\<close> is
  \<open>Unknown Supplier\<close>. When it finds a row, \<open>supplierName\<close> is the first non-empty
  one of \<open>name\<close>, \<open>customerName\<close>, \<open>companyName\<close> and \<open>fullName\<close> of that row, and
  \<open>Unknown Supplier\<close> when all four are empty or missing.
\<close>

theorem list_B_supplierName:
  "set (list_B d params) \<subseteq> processRow_B ` set (joinRows_B d)
   \<and> (\<forall>jr \<in> set (joinRows_B d).
         case j_supplier jr of
           None \<Rightarrow>
             \<not> (\<exists>c \<in> set (customers d). q_customerId (j_quotation jr) = Some (c_id c))
             \<and> r_supplierName (processRow_B jr) = Some ''Unknown Supplier''
         | Some s \<Rightarrow>
             s \<in> set (customers d) \<and> q_customerId (j_quotation jr) = Some (c_id s)
             \<and> r_supplierName (processRow_B jr) =
                 (if truthy (c_name s) then c_name s
                  else if truthy (c_customerName s) then c_customerName s
                  else if truthy (c_companyName s) then c_companyName s
                  else if truthy (c_fullName s) then c_fullName s
                  else Some ''Unknown Supplier''))"
proof (intro conjI ballI)
  show "set (list_B d params) \<subseteq> processRow_B ` set (joinRows_B d)"
    using list_B_row by blast
next
  fix jr
  assume jr: "jr \<in> set (joinRows_B d)"
  have "case j_supplier jr of
          None \<Rightarrow> \<not> (\<exists>c \<in> set (customers d). q_customerId (j_quotation jr) = Some (c_id c))
        | Some s \<Rightarrow> s \<in> set (customers d) \<and> q_customerId (j_quotation jr) = Some (c_id s)"
    using joinRows_B_supplier [OF jr]
    by (auto simp: leftJoin_set sql_eq_Some split: option.splits)
  then show "case j_supplier jr of
           None \<Rightarrow>
             \<not> (\<exists>c \<in> set (customers d). q_customerId (j_quotation jr) = Some (c_id c))
             \<and> r_supplierName (processRow_B jr) = Some ''Unknown Supplier''
         | Some s \<Rightarrow>
             s \<in> set (customers d) \<and> q_customerId (j_quotation jr) = Some (c_id s)
             \<and> r_supplierName (processRow_B jr) =
                 (if truthy (c_name s) then c_name s
                  else if truthy (c_customerName s) then c_customerName s
                  else if truthy (c_companyName s) then c_companyName s
                  else if truthy (c_fullName s) then c_fullName s
                  else Some ''Unknown Supplier'')"
    by (simp add: processRow_B_name split: option.splits)
qed

lemma sample_list_B:
  "c_id c = ''c1'' \<Longrightarrow>
   list_B (storeWith [quote1] [c] ss) sampleParams =
     [processRow_B \<lparr> j_quotation = quote1, j_supplier = Some c, j_customer = Some c \<rparr>]"
  by (simp add: list_B_def joinRows_B_def whereClauses_def truthy_def applyWhere_def
        leftJoin_def storeWith_def sql_eq_def quote1_def sampleParams_def Let_def)

text \<open>
  C6 as stated fails on a joined row without a name: the customer \<open>c1\<close> is found by the
  join, its name is the empty string, and \<open>supplierName\<close> is \<open>Unknown Supplier\<close>.
\<close>

theorem list_B_blank_name_counterexample:
  "map (map_option c_name \<circ> j_supplier) (joinRows_B (storeWith [quote1] [blankCustomer] []))
     = [Some (Some [])]
   \<and> map (map_option pt_id \<circ> r_supplier)
        (list_B (storeWith [quote1] [blankCustomer] []) sampleParams) = [Some (Some ''c1'')]
   \<and> map r_supplierName (list_B (storeWith [quote1] [blankCustomer] []) sampleParams)
     = [Some ''Unknown Supplier'']"
proof -
  have c: "c_id blankCustomer = ''c1''"
    by (simp add: blankCustomer_def customer1_def)
  show ?thesis
    unfolding sample_list_B [OF c] processRow_B_name
    by (simp add: joinRows_B_def leftJoin_def storeWith_def sql_eq_def quote1_def
          blankCustomer_def customer1_def processRow_B_def partyOf_def truthy_def js_or_def
          Let_def)
qed

lemma sample_joinRows_B:
  "c_id c = ''c1'' \<Longrightarrow>
   joinRows_B (storeWith [quote1] [c] ss) =
     [\<lparr> j_quotation = quote1, j_supplier = Some c, j_customer = Some c \<rparr>]"
  by (simp add: joinRows_B_def leftJoin_def storeWith_def sql_eq_def quote1_def Let_def)

text \<open>
  A joined customer named \<open>Globex\<close> gives that name; one with only a \<open>fullName\<close>
  gives the \<open>fullName\<close>.
\<close>

theorem list_B_supplierName_witness:
  "map r_supplierName (list_B (storeWith [quote1] [customer1] []) sampleParams) = [Some ''Globex'']
   \<and> map r_supplierName (list_B (storeWith [quote1] [customer1 \<lparr> c_name := None, c_fullName := Some ''Globex Ltd'' \<rparr>] []) sampleParams)
       = [Some ''Globex Ltd'']"
proof -
  let ?c2 = "customer1 \<lparr> c_name := None, c_fullName := Some ''Globex Ltd'' \<rparr>"
  have c: "c_id customer1 = ''c1''" and c2: "c_id ?c2 = ''c1''"
    by (simp_all add: customer1_def)
  have "\<forall>jr \<in> set [\<lparr> j_quotation = quote1, j_supplier = Some customer1,
                         j_customer = Some customer1 \<rparr>].
          case j_supplier jr of
            None \<Rightarrow> r_supplierName (processRow_B jr) = Some ''Unknown Supplier''
          | Some s \<Rightarrow> r_supplierName (processRow_B jr) =
                 (if truthy (c_name s) then c_name s
                  else if truthy (c_customerName s) then c_customerName s
                  else if truthy (c_companyName s) then c_companyName s
                  else if truthy (c_fullName s) then c_fullName s
                  else Some ''Unknown Supplier'')"
    using list_B_supplierName [of "storeWith [quote1] [customer1] []" sampleParams]
    unfolding sample_joinRows_B [OF c] by (simp split: option.splits)
  moreover have "\<forall>jr \<in> set [\<lparr> j_quotation = quote1, j_supplier = Some ?c2,
                         j_customer = Some ?c2 \<rparr>].
          case j_supplier jr of
            None \<Rightarrow> r_supplierName (processRow_B jr) = Some ''Unknown Supplier''
          | Some s \<Rightarrow> r_supplierName (processRow_B jr) =
                 (if truthy (c_name s) then c_name s
                  else if truthy (c_customerName s) then c_customerName s
                  else if truthy (c_companyName s) then c_companyName s
                  else if truthy (c_fullName s) then c_fullName s
                  else Some ''Unknown Supplier'')"
    using list_B_supplierName [of "storeWith [quote1] [?c2] []" sampleParams]
    unfolding sample_joinRows_B [OF c2] by (simp split: option.splits)
  ultimately show ?thesis
    unfolding sample_list_B [OF c] sample_list_B [OF c2]
    by (simp add: customer1_def truthy_def)
qed










section \<open>Properties of the customer list endpoint\<close>
















end
